theory Spec2Isabelle
  imports Main
begin

section \<open>Python values and library behaviour the program relies on\<close>

text \<open>
  Exceptions are values. \<open>HTTPNotFound\<close> is a subclass of \<open>ClientError\<close> in the
  browser library, which \<open>is_ClientError\<close> records. \<open>ServerError\<close> carries what the
  handler in \<open>do_login\<close> reads from the response: status code, Content-Type header, body.
\<close>

datatype error =
    ClientError
  | HTTPNotFound
  | ServerError nat string string
  | IndexError
  | KeyError
  | ValueError
  | TypeError
  | EOFError
  | EnvironmentError string
  | OtherError string

fun is_ClientError :: "error \<Rightarrow> bool" where
  "is_ClientError ClientError = True"
| "is_ClientError HTTPNotFound = True"
| "is_ClientError _ = False"

text \<open>
  What a call does: it returns a value, raises, provably never returns (\<open>Diverges\<close>),
  or did not finish within the fuel given to its loops (\<open>OutOfFuel\<close>).
\<close>

datatype 'a outcome = Returns 'a | Raises error | Diverges | OutOfFuel

text \<open>Python's \<open>xs[i]\<close>: a negative index counts from the end, out of range raises.\<close>

definition py_getitem :: "'a list \<Rightarrow> int \<Rightarrow> error + 'a" where
  "py_getitem xs i =
     (let n = int (length xs); j = (if i < 0 then i + n else i)
      in if 0 \<le> j \<and> j < n then Inr (xs ! nat j) else Inl IndexError)"

text \<open>\<open>str.strip()\<close> on ASCII text: the characters \<open>str.isspace\<close> accepts below 128.\<close>

definition is_space :: "char \<Rightarrow> bool" where
  "is_space c = (c \<in> set [CHR 0x09, CHR 0x0A, CHR 0x0B, CHR 0x0C, CHR 0x0D,
                            CHR 0x1C, CHR 0x1D, CHR 0x1E, CHR 0x1F, CHR 0x20])"

definition strip :: "string \<Rightarrow> string" where
  "strip s = rev (dropWhile is_space (rev (dropWhile is_space s)))"

text \<open>The position of an element in a list, used for the value of a decimal digit.\<close>

fun index_of :: "'a \<Rightarrow> 'a list \<Rightarrow> nat option" where
  "index_of x [] = None"
| "index_of x (y # ys) = (if x = y then Some 0 else map_option Suc (index_of x ys))"

definition digit_val :: "char \<Rightarrow> nat option" where
  "digit_val c = index_of c ''0123456789''"

text \<open>
  The digits after the first one of an \<open>int()\<close> literal: a single underscore is allowed
  between two digits.
\<close>

fun int_digits :: "nat \<Rightarrow> string \<Rightarrow> nat option" where
  "int_digits acc [] = Some acc"
| "int_digits acc (c # cs) =
     (if c = CHR ''_'' then
        (case cs of
           [] \<Rightarrow> None
         | d # ds \<Rightarrow>
             (case digit_val d of
                None \<Rightarrow> None
              | Some v \<Rightarrow> int_digits (10 * acc + v) ds))
      else
        (case digit_val c of
           None \<Rightarrow> None
         | Some v \<Rightarrow> int_digits (10 * acc + v) cs))"

text \<open>
  \<open>int(s)\<close> on ASCII text: surrounding whitespace, an optional sign, decimal digits.
  \<open>Inl ValueError\<close> is the exception Python raises on anything else.
\<close>

definition py_int :: "string \<Rightarrow> error + int" where
  "py_int s =
     (let t = strip s;
          neg = (case t of [] \<Rightarrow> False | c # _ \<Rightarrow> c = CHR ''-'');
          body = (case t of [] \<Rightarrow> [] | c # r \<Rightarrow> if c = CHR ''-'' \<or> c = CHR ''+'' then r else t)
      in case body of
           [] \<Rightarrow> Inl ValueError
         | d # ds \<Rightarrow>
             (case digit_val d of
                None \<Rightarrow> Inl ValueError
              | Some v \<Rightarrow>
                  (case int_digits v ds of
                     None \<Rightarrow> Inl ValueError
                   | Some n \<Rightarrow> Inr (if neg then - int n else int n))))"

text \<open>\<open>str(n)\<close> for an integer.\<close>

definition digit_char :: "nat \<Rightarrow> char" where
  "digit_char n = ''0123456789'' ! n"

function str_nat :: "nat \<Rightarrow> string" where
  "str_nat n = (if n < 10 then [digit_char n] else str_nat (n div 10) @ [digit_char (n mod 10)])"
  by pat_completeness auto
termination
  by (relation "measure id") auto

declare str_nat.simps [simp del]

definition str_int :: "int \<Rightarrow> string" where
  "str_int i = (if i < 0 then CHR ''-'' # str_nat (nat (- i)) else str_nat (nat i))"

text \<open>\<open>sep.join(xs)\<close>.\<close>

fun join :: "string \<Rightarrow> string list \<Rightarrow> string" where
  "join sep [] = []"
| "join sep [x] = x"
| "join sep (x # y # ys) = x @ sep @ join sep (y # ys)"

text \<open>\<open>needle in hay\<close> for two strings.\<close>

fun contains :: "string \<Rightarrow> string \<Rightarrow> bool" where
  "contains [] needle = (needle = [])"
| "contains (c # cs) needle = (take (length needle) (c # cs) = needle \<or> contains cs needle)"

text \<open>
  \<open>text % tuple(args)\<close> where every argument is a string. \<open>%s\<close> consumes an argument,
  \<open>%%\<close> is a percent sign; a conversion with no argument left and arguments left over
  raise \<open>TypeError\<close>, a lone \<open>%\<close> at the end raises \<open>ValueError\<close>. The program's own
  format strings use no other conversion; on any other character after \<open>%\<close> the model
  answers \<open>ValueError\<close> (Python raises there too, padded forms such as \<open>%5s\<close> apart).
  On a text without \<open>%\<close> and no arguments the result is the text itself.
\<close>

fun py_format :: "string \<Rightarrow> string list \<Rightarrow> error + string" where
  "py_format [] [] = Inr []"
| "py_format [] (a # as) = Inl TypeError"
| "py_format (c # cs) as =
     (if c \<noteq> CHR ''%'' then
        (case py_format cs as of Inl e \<Rightarrow> Inl e | Inr r \<Rightarrow> Inr (c # r))
      else
        (case cs of
           [] \<Rightarrow> Inl ValueError
         | d # ds \<Rightarrow>
             if d = CHR ''%'' then
               (case py_format ds as of Inl e \<Rightarrow> Inl e | Inr r \<Rightarrow> Inr (CHR ''%'' # r))
             else if d = CHR ''s'' then
               (case as of
                  [] \<Rightarrow> Inl TypeError
                | a # as' \<Rightarrow>
                    (case py_format ds as' of Inl e \<Rightarrow> Inl e | Inr r \<Rightarrow> Inr (a @ r)))
             else Inl ValueError))"

text \<open>A text between single quotes.\<close>

definition quoted :: "string \<Rightarrow> string" where
  "quoted s = CHR 0x27 # s @ [CHR 0x27]"

section \<open>The JSON documents of the booking service\<close>

record visit_motive =
  vm_id :: int
  vm_name :: string

record agenda =
  agenda_id :: int
  visit_motive_ids :: "int list"
  booking_disabled :: bool
  practice_id :: int

record place =
  practice_ids :: "int list"

record booking_doc =
  places :: "place list"
  agendas :: "agenda list"
  profile_id :: int
  visit_motives :: "visit_motive list"

text \<open>
  A slot is opaque (its text is all the model keeps). \<open>next_slot\<close> and \<open>message\<close> are
  optional keys; when present, \<open>next_slot\<close> holds a date string.
\<close>

record availability =
  slots :: "string list"

record avail_doc =
  next_slot :: "string option"
  message :: "string option"
  availabilities :: "availability list"

record patient =
  first_name :: string
  last_name :: string

section \<open>DoctorBookingPage\<close>

definition get_practice :: "booking_doc \<Rightarrow> error + int" where
  "get_practice doc =
     (case py_getitem (places doc) 0 of
        Inl e \<Rightarrow> Inl e
      | Inr p \<Rightarrow> py_getitem (practice_ids p) 0)"

text \<open>
  \<open>not practice_id\<close> is Python truthiness: it holds for \<open>None\<close> and for the integer 0.
\<close>

definition falsy :: "int option \<Rightarrow> bool" where
  "falsy v = (case v of None \<Rightarrow> True | Some i \<Rightarrow> i = 0)"

definition get_agenda_ids :: "booking_doc \<Rightarrow> int \<Rightarrow> int option \<Rightarrow> string list" where
  "get_agenda_ids doc motive pr =
     map (\<lambda>a. str_int (agenda_id a))
       (filter (\<lambda>a. motive \<in> set (visit_motive_ids a) \<and> \<not> booking_disabled a \<and>
                     (falsy pr \<or> Some (practice_id a) = pr))
          (agendas doc))"

definition get_profile_id :: "booking_doc \<Rightarrow> int" where
  "get_profile_id doc = profile_id doc"

section \<open>The world the program runs in\<close>

text \<open>
  The query string of \<open>GET /availabilities.json\<close>. \<open>insurance_sector\<close>,
  \<open>destroy_temporary\<close> and \<open>limit\<close> are always \<open>public\<close>, \<open>true\<close> and 3.
\<close>

record avail_query =
  q_start_date :: string
  q_visit_motive_ids :: int
  q_agenda_ids :: string
  q_insurance_sector :: string
  q_practice_ids :: int
  q_destroy_temporary :: string
  q_limit :: nat

text \<open>
  The requests the program issues: \<open>Post_login username password\<close> (kind patient,
  remember and remember_username true), \<open>Post_send_auth_code method\<close>,
  \<open>Post_challenge auth_code method\<close>, \<open>Get_doctor_booking doctor_id\<close>.
\<close>

datatype request =
    Get_sessions_new
  | Post_login string string
  | Post_send_auth_code string
  | Post_challenge string string
  | Get_master_patients
  | Get_doctor_booking string
  | Get_availabilities avail_query

text \<open>
  The decoded body of a response. \<open>Doc_other\<close> is any body of another shape (the two
  pages of the second factor ignore the body altogether).
\<close>

datatype response =
    Doc_login string
  | Doc_booking booking_doc
  | Doc_availabilities avail_doc
  | Doc_patients "patient list"
  | Doc_other

text \<open>
  The server answers a request, given every request it has received before, with an HTTP
  error (raised by the browser) or a document.
\<close>

type_synonym server = "request list \<Rightarrow> request \<Rightarrow> error + response"

text \<open>
  \<open>sent\<close>: requests issued so far, oldest first. \<open>stdin\<close>: the lines not yet read
  (without their newline); the empty list is end of file. \<open>isatty\<close>: whether a terminal
  is attached. \<open>stdout\<close>: what was printed, one entry per call of \<open>print\<close>.
  \<open>data_dir\<close>: whether DATA_DIRNAME exists. \<open>state_file\<close>: the text of STATE_FILENAME,
  if the file exists. \<open>writes\<close>: how many times the state file has been written.
\<close>

record world =
  sent :: "request list"
  stdin :: "string list"
  isatty :: bool
  stdout :: "string list"
  data_dir :: bool
  state_file :: "string option"
  writes :: nat

text \<open>Sequencing: an exception, divergence or exhausted fuel ends the computation.\<close>

definition and_then ::
  "'a outcome \<times> world \<Rightarrow> ('a \<Rightarrow> world \<Rightarrow> 'b outcome \<times> world) \<Rightarrow> 'b outcome \<times> world" where
  "and_then m f =
     (case m of
        (Returns x, w) \<Rightarrow> f x w
      | (Raises e, w) \<Rightarrow> (Raises e, w)
      | (Diverges, w) \<Rightarrow> (Diverges, w)
      | (OutOfFuel, w) \<Rightarrow> (OutOfFuel, w))"

text \<open>\<open>URL.go\<close> and \<open>open\<close>: the request is recorded, the server's answer decides.\<close>

definition go :: "server \<Rightarrow> request \<Rightarrow> world \<Rightarrow> response outcome \<times> world" where
  "go srv rq w =
     (case srv (sent w) rq of Inl e \<Rightarrow> Raises e | Inr p \<Rightarrow> Returns p,
      w\<lparr>sent := sent w @ [rq]\<rparr>)"

definition print :: "string \<Rightarrow> world \<Rightarrow> world" where
  "print s w = w\<lparr>stdout := stdout w @ [s]\<rparr>"

text \<open>
  \<open>log(text, *args)\<close>: the text is used as a format string even when there is no
  argument. The ANSI colour codes (which contain no \<open>%\<close>) are left out.
\<close>

definition log :: "string \<Rightarrow> string list \<Rightarrow> world \<Rightarrow> unit outcome \<times> world" where
  "log text args w =
     (case py_format text args of
        Inl e \<Rightarrow> (Raises e, w)
      | Inr s \<Rightarrow> (Returns (), print s w))"

text \<open>\<open>input(prompt)\<close>: prints the prompt, reads a line, raises at end of file.\<close>

definition input :: "string \<Rightarrow> world \<Rightarrow> string outcome \<times> world" where
  "input prompt w =
     (case stdin w of
        [] \<Rightarrow> (Raises EOFError, print prompt w)
      | l # ls \<Rightarrow> (Returns l, (print prompt w)\<lparr>stdin := ls\<rparr>))"

text \<open>
  The two selection loops of the program have the same shape:
  \<^verbatim>\<open>
  while True:
      print(question, end=' ', flush=True)
      try:
          choice = xs[int(sys.stdin.readline().strip())]
      except (ValueError, IndexError):
          continue
      else:
          break
  \<close>
  At end of file \<open>readline\<close> returns the empty string for ever, \<open>int\<close> raises
  \<open>ValueError\<close> on it, and the loop never ends. The result is the choice (if any), the
  lines left and the output.
\<close>

fun ask_loop ::
  "string \<Rightarrow> 'a list \<Rightarrow> string list \<Rightarrow> string list \<Rightarrow> 'a option \<times> string list \<times> string list" where
  "ask_loop question xs [] out = (None, [], out @ [question])"
| "ask_loop question xs (l # ls) out =
     (case py_int (strip l) of
        Inl e \<Rightarrow> ask_loop question xs ls (out @ [question])
      | Inr i \<Rightarrow>
          (case py_getitem xs i of
             Inl e \<Rightarrow> ask_loop question xs ls (out @ [question])
           | Inr x \<Rightarrow> (Some x, ls, out @ [question])))"

definition ask :: "string \<Rightarrow> 'a list \<Rightarrow> world \<Rightarrow> 'a outcome \<times> world" where
  "ask question xs w =
     (case ask_loop question xs (stdin w) (stdout w) of
        (r, ls, out) \<Rightarrow>
          (case r of None \<Rightarrow> Diverges | Some x \<Rightarrow> Returns x,
           w\<lparr>stdin := ls, stdout := out\<rparr>))"

section \<open>Doctolib: login\<close>

text \<open>
  The browser object, as far as the program reads it. Its \<open>patient\<close> attribute is
  assigned in \<open>main\<close> and read only for the line that announces the search.
\<close>

record docto =
  username :: string
  password :: string

definition redirect :: "response \<Rightarrow> error + string" where
  "redirect p = (case p of Doc_login r \<Rightarrow> Inr r | _ \<Rightarrow> Inl KeyError)"

definition no_terminal_message :: string where
  "no_terminal_message =
     ''Auth Code input required, but no interactive terminal available. '' @
     ''Please provide it via command line argument '' @ quoted ''--code'' @ ''.''"

text \<open>Lines 156 to 171 of \<open>do_login\<close>: what follows a login the server accepted.\<close>

definition two_factor :: "server \<Rightarrow> response \<Rightarrow> world \<Rightarrow> bool outcome \<times> world" where
  "two_factor srv page w =
     (case redirect page of
        Inl e \<Rightarrow> (Raises e, w)
      | Inr r \<Rightarrow>
          if r = ''/sessions/two-factor'' then
            (let w1 = print ''Requesting 2fa code...'' w in
             if \<not> isatty w1 then
               and_then
                 (log no_terminal_message [] w1)
                 (\<lambda>_ w2. (Returns False, w2))
             else
               and_then (go srv (Post_send_auth_code ''email'') w1) (\<lambda>_ w2.
               and_then (input ''Enter auth code: '' w2) (\<lambda>code w3.
                 (case go srv (Post_challenge code ''email'') w3 of
                    (Raises HTTPNotFound, w4) \<Rightarrow> (Returns False, print ''Invalid auth code'' w4)
                  | (Raises e, w4) \<Rightarrow> (Raises e, w4)
                  | (Returns _, w4) \<Rightarrow> (Returns True, w4)
                  | (Diverges, w4) \<Rightarrow> (Diverges, w4)
                  | (OutOfFuel, w4) \<Rightarrow> (OutOfFuel, w4)))))
          else (Returns True, w))"

definition do_login :: "server \<Rightarrow> docto \<Rightarrow> world \<Rightarrow> bool outcome \<times> world" where
  "do_login srv d w =
     (case go srv Get_sessions_new w of
        (Raises (ServerError status ctype body), w1) \<Rightarrow>
          and_then
            (if status = 503 \<and> contains ctype ''text/html'' \<and>
                (contains body ''cloudflare'' \<or>
                 contains body ''Checking your browser before accessing'')
             then log ''Request blocked by CloudFlare'' [] w1 else (Returns (), w1))
            (\<lambda>_ w2.
          and_then
            (if status = 520
             then log ''Cloudflare is unable to connect to Doctolib server. Please retry later.'' [] w2
             else (Returns (), w2))
            (\<lambda>_ w3. (Raises (ServerError status ctype body), w3)))
      | (Raises e, w1) \<Rightarrow> (Raises e, w1)
      | (Diverges, w1) \<Rightarrow> (Diverges, w1)
      | (OutOfFuel, w1) \<Rightarrow> (OutOfFuel, w1)
      | (Returns _, w1) \<Rightarrow>
          (case go srv (Post_login (username d) (password d)) w1 of
             (Raises e, w2) \<Rightarrow>
               if is_ClientError e then (Returns False, print ''Wrong login/password'' w2)
               else (Raises e, w2)
           | (Diverges, w2) \<Rightarrow> (Diverges, w2)
           | (OutOfFuel, w2) \<Rightarrow> (OutOfFuel, w2)
           | (Returns page, w2) \<Rightarrow> two_factor srv page w2))"

definition get_patients :: "server \<Rightarrow> world \<Rightarrow> patient list outcome \<times> world" where
  "get_patients srv w =
     and_then (go srv Get_master_patients w) (\<lambda>page w1.
       case page of Doc_patients ps \<Rightarrow> (Returns ps, w1) | _ \<Rightarrow> (Raises TypeError, w1))"

section \<open>Doctolib: has_availability\<close>

record args =
  doctor_id :: string
  arg_username :: string
  arg_password :: "string option"
  motive_id :: "int option"
  start_date :: "string option"

definition motive_line :: "nat \<times> visit_motive \<Rightarrow> string" where
  "motive_line p =
     (case p of (i, vm) \<Rightarrow>
        ''* ['' @ str_nat i @ ''] '' @ vm_name vm @ '' (ID: '' @ str_int (vm_id vm) @ '')'')"

text \<open>
  Lines 189 to 206: the motive id the queries are made with. \<open>not args.motive_id\<close> holds
  when no id was given and when the id given is 0.
\<close>

definition choose_motive :: "visit_motive list \<Rightarrow> world \<Rightarrow> int outcome \<times> world" where
  "choose_motive vms w =
     (if length vms = 0 then
        (Raises (EnvironmentError ''Doctor does not offer any consultation ATM''), w)
      else if length vms = 1 then (Returns (vm_id (vms ! 0)), w)
      else
        (let w1 = print ''Available motives are:'' w;
             w2 = fold print (map motive_line (enumerate 0 vms)) w1
         in and_then (ask ''What is your consultation motive?'' vms w2)
              (\<lambda>vm w3. (Returns (vm_id vm), w3))))"

definition select_motive :: "booking_doc \<Rightarrow> args \<Rightarrow> world \<Rightarrow> int outcome \<times> world" where
  "select_motive doc a w =
     (case motive_id a of
        None \<Rightarrow> choose_motive (visit_motives doc) w
      | Some m \<Rightarrow> if m = 0 then choose_motive (visit_motives doc) w else (Returns m, w))"

definition mk_query :: "int \<Rightarrow> string list \<Rightarrow> int \<Rightarrow> string \<Rightarrow> avail_query" where
  "mk_query motive agenda_ids practice date =
     \<lparr>q_start_date = date, q_visit_motive_ids = motive, q_agenda_ids = join ''-'' agenda_ids,
      q_insurance_sector = ''public'', q_practice_ids = practice,
      q_destroy_temporary = ''true'', q_limit = 3\<rparr>"

text \<open>
  Lines 211 to 223, \<open>while date is not None\<close>: the result is the document of the last
  response. A body of another shape has no \<open>availabilities\<close> key, which line 226 raises
  on. The server may send \<open>next_slot\<close> for ever, so the loop runs on fuel.
\<close>

fun poll ::
  "nat \<Rightarrow> server \<Rightarrow> (string \<Rightarrow> avail_query) \<Rightarrow> string \<Rightarrow> world \<Rightarrow> avail_doc outcome \<times> world" where
  "poll 0 srv q date w = (OutOfFuel, w)"
| "poll (Suc n) srv q date w =
     (case go srv (Get_availabilities (q date)) w of
        (Returns page, w1) \<Rightarrow>
          (case page of
             Doc_availabilities doc \<Rightarrow>
               (case next_slot doc of
                  Some d \<Rightarrow> poll n srv q d w1
                | None \<Rightarrow> (Returns doc, w1))
           | _ \<Rightarrow> (Raises KeyError, w1))
      | (Raises e, w1) \<Rightarrow> (Raises e, w1)
      | (Diverges, w1) \<Rightarrow> (Diverges, w1)
      | (OutOfFuel, w1) \<Rightarrow> (OutOfFuel, w1))"

text \<open>The list as \<open>%s\<close> shows it, for entries that hold slots only.\<close>

definition repr_availabilities :: "availability list \<Rightarrow> string" where
  "repr_availabilities avs =
     ''['' @ join '', ''
        (map (\<lambda>a. ''{'' @ quoted ''slots'' @ '': ['' @ join '', '' (map quoted (slots a)) @ '']}'') avs)
      @ '']''"

text \<open>Lines 225 to 231: the decision on the last response.\<close>

definition decide :: "avail_doc \<Rightarrow> world \<Rightarrow> bool outcome \<times> world" where
  "decide doc w =
     and_then (log (case message doc of None \<Rightarrow> [] | Some m \<Rightarrow> m) [] w) (\<lambda>_ w1.
       if availabilities doc = [] \<or> \<not> list_ex (\<lambda>a. slots a \<noteq> []) (availabilities doc) then
         and_then (log ''no availabilities'' [] w1) (\<lambda>_ w2. (Returns False, w2))
       else
         and_then (log ''availabilities: %s'' [repr_availabilities (availabilities doc)] w1)
           (\<lambda>_ w2. (Returns True, w2)))"

text \<open>
  \<open>start\<close> is the start date as \<open>strftime('%Y-%m-%d')\<close> renders it. The call returns
  its answer together with \<open>args\<close>, whose \<open>motive_id\<close> it assigns. The profile id
  (line 187) is read for the debug line only and is left out, as are that line and the
  pauses of \<open>sleep\<close>.
\<close>

definition has_availability ::
  "nat \<Rightarrow> server \<Rightarrow> args \<Rightarrow> string \<Rightarrow> world \<Rightarrow> (bool \<times> args) outcome \<times> world" where
  "has_availability n srv a start w =
     and_then (go srv (Get_doctor_booking (doctor_id a)) w) (\<lambda>page w1.
       case page of
         Doc_booking doc \<Rightarrow>
           (case get_practice doc of
              Inl e \<Rightarrow> (Raises e, w1)
            | Inr practice \<Rightarrow>
                and_then (select_motive doc a w1) (\<lambda>motive w2.
                  let a' = a\<lparr>motive_id := Some motive\<rparr>;
                      agenda_ids = get_agenda_ids doc motive (Some practice)
                  in and_then (poll n srv (mk_query motive agenda_ids practice) start w2)
                       (\<lambda>last_doc w3.
                          and_then (decide last_doc w3) (\<lambda>b w4. (Returns (b, a'), w4)))))
       | _ \<Rightarrow> (Raises KeyError, w1))"

section \<open>Application\<close>

text \<open>
  What the program takes from libraries: \<open>json.dump\<close> and \<open>json.load\<close>, the empty
  dictionary, \<open>dump_state()\<close> of a browser that loaded a state and then issued the given
  requests, \<open>getpass.getpass()\<close>, \<open>date.today()\<close> and
  \<open>strptime(s, '%d/%m/%Y').date()\<close> (\<open>Inl\<close> the text of the \<open>ValueError\<close>); a date
  is kept as the text \<open>%Y-%m-%d\<close> renders.
\<close>

record 'b library =
  json_dump :: "'b \<Rightarrow> string"
  json_load :: "string \<Rightarrow> error + 'b"
  empty_dict :: 'b
  dump_state :: "'b \<Rightarrow> request list \<Rightarrow> 'b"
  getpass :: string
  today :: string
  strptime :: "string \<Rightarrow> string + string"

text \<open>\<open>load_state\<close>: a missing file is \<open>IOError\<close>, answered by the empty state.\<close>

definition load_state :: "'b library \<Rightarrow> world \<Rightarrow> 'b outcome \<times> world" where
  "load_state lib w =
     (case state_file w of
        None \<Rightarrow> (Returns (empty_dict lib), w)
      | Some text \<Rightarrow>
          (case json_load lib text of
             Inl e \<Rightarrow> (Raises e, w)
           | Inr state \<Rightarrow> (Returns state, w)))"

text \<open>\<open>save_state\<close>: the directory is made when missing, the file is overwritten.\<close>

definition save_state :: "'b library \<Rightarrow> 'b \<Rightarrow> world \<Rightarrow> unit outcome \<times> world" where
  "save_state lib state w =
     (let w1 = (if \<not> data_dir w then w\<lparr>data_dir := True\<rparr> else w)
      in (Returns (), w1\<lparr>state_file := Some (json_dump lib state), writes := writes w1 + 1\<rparr>))"

text \<open>\<open>try: ... finally: handler\<close>. The handler runs when the body returns or raises.\<close>

definition try_finally ::
  "'a outcome \<times> world \<Rightarrow> (world \<Rightarrow> unit outcome \<times> world) \<Rightarrow> 'a outcome \<times> world" where
  "try_finally m h =
     (case m of
        (Diverges, w) \<Rightarrow> (Diverges, w)
      | (OutOfFuel, w) \<Rightarrow> (OutOfFuel, w)
      | (r, w) \<Rightarrow>
          (case h w of
             (Returns _, w') \<Rightarrow> (r, w')
           | (Raises e, w') \<Rightarrow> (Raises e, w')
           | (Diverges, w') \<Rightarrow> (Diverges, w')
           | (OutOfFuel, w') \<Rightarrow> (OutOfFuel, w')))"

text \<open>Line 335, \<open>while not docto.has_availability(args, start_date): sleep(5)\<close>.\<close>

fun wait_for_slot ::
  "nat \<Rightarrow> nat \<Rightarrow> server \<Rightarrow> args \<Rightarrow> string \<Rightarrow> world \<Rightarrow> unit outcome \<times> world" where
  "wait_for_slot 0 n srv a start w = (OutOfFuel, w)"
| "wait_for_slot (Suc k) n srv a start w =
     (case has_availability n srv a start w of
        (Returns (b, a'), w1) \<Rightarrow>
          if b then (Returns (), w1) else wait_for_slot k n srv a' start w1
      | (Raises e, w1) \<Rightarrow> (Raises e, w1)
      | (Diverges, w1) \<Rightarrow> (Diverges, w1)
      | (OutOfFuel, w1) \<Rightarrow> (OutOfFuel, w1))"

definition patient_line :: "nat \<times> patient \<Rightarrow> string" where
  "patient_line p =
     (case p of (i, pt) \<Rightarrow> ''* ['' @ str_nat i @ ''] '' @ first_name pt @ '' '' @ last_name pt)"

text \<open>
  The body of the \<open>try\<close> of \<open>main\<close>, lines 299 to 339. Once a slot is found the program
  plays a sound every five seconds and never returns.
\<close>

definition try_body ::
  "nat \<Rightarrow> 'b library \<Rightarrow> server \<Rightarrow> args \<Rightarrow> docto \<Rightarrow> world \<Rightarrow> int outcome \<times> world" where
  "try_body n lib srv a d w =
     and_then (do_login srv d w) (\<lambda>ok w1.
       if \<not> ok then (Returns 1, w1)
       else
         and_then (get_patients srv w1) (\<lambda>patients w2.
           if length patients = 0 then
             (Returns 1,
              print (''It seems that you don'' @ [CHR 0x27] @ ''t have any Patient registered in '' @
                     ''your Doctolib account. Please fill your Patient data on Doctolib Website.'') w2)
           else
             and_then
               (if length patients > 1 then
                  (let w3 = print ''Available patients are:'' w2;
                       w4 = fold print (map patient_line (enumerate 0 patients)) w3
                   in ask ''For which patient do you want to book a slot?'' patients w4)
                else (Returns (patients ! 0), w2))
               (\<lambda>pt w5.
                  case (case start_date a of
                          None \<Rightarrow> Inr (today lib)
                        | Some s \<Rightarrow> if s = [] then Inr (today lib) else strptime lib s) of
                    Inl msg \<Rightarrow> (Returns 1, print (''Invalid value for --start-date: '' @ msg) w5)
                  | Inr start \<Rightarrow>
                      and_then
                        (log ''Starting to look for available slots for %s %s from %s...''
                           [first_name pt, last_name pt, start] w5)
                        (\<lambda>_ w6.
                           and_then (wait_for_slot n n srv a start w6)
                             (\<lambda>_ w7. (Diverges, w7))))))"

text \<open>
  \<open>main\<close> from line 292 on, after the arguments have been parsed: the password, the
  browser and its saved state, then the \<open>try\<close> whose \<open>finally\<close> saves the state.
\<close>

definition password_of :: "'b library \<Rightarrow> args \<Rightarrow> string" where
  "password_of lib a =
     (case arg_password a of
        None \<Rightarrow> getpass lib
      | Some p \<Rightarrow> if p = [] then getpass lib else p)"

definition main :: "nat \<Rightarrow> 'b library \<Rightarrow> server \<Rightarrow> args \<Rightarrow> world \<Rightarrow> int outcome \<times> world" where
  "main n lib srv a w =
     (let d = \<lparr>username = arg_username a, password = password_of lib a\<rparr>
      in and_then (load_state lib w) (\<lambda>state w0.
           try_finally (try_body n lib srv a d w0)
             (\<lambda>w'. save_state lib (dump_state lib state (sent w')) w')))"


section \<open>What the specification talks about\<close>

text \<open>
  \<open>agendasFor\<close> in the words of the specification: an agenda qualifies iff it lists the
  motive id, is not marked disabled, and (when a practice id is given) matches that
  practice.
\<close>

definition agendasFor :: "booking_doc \<Rightarrow> int \<Rightarrow> int option \<Rightarrow> string list" where
  "agendasFor doc motive pr =
     map (\<lambda>a. str_int (agenda_id a))
       (filter (\<lambda>a. motive \<in> set (visit_motive_ids a) \<and> \<not> booking_disabled a \<and>
                     (case pr of None \<Rightarrow> True | Some p \<Rightarrow> practice_id a = p))
          (agendas doc))"

text \<open>
  A response chain: \<open>chain srv q h d rs\<close> holds when the server, having received the
  requests \<open>h\<close>, answers the query for date \<open>d\<close> and the queries that follow with the
  documents \<open>rs\<close>, every document but the last carrying \<open>next_slot\<close> and the last one
  not. \<open>chain_dates d rs\<close> are the dates such a chain visits: \<open>d\<close>, then the
  \<open>next_slot\<close> of each document in turn.
\<close>

fun chain ::
  "server \<Rightarrow> (string \<Rightarrow> avail_query) \<Rightarrow> request list \<Rightarrow> string \<Rightarrow> avail_doc list \<Rightarrow> bool" where
  "chain srv q h d [] = False"
| "chain srv q h d (r # rs) =
     (srv h (Get_availabilities (q d)) = Inr (Doc_availabilities r) \<and>
      (case next_slot r of
         None \<Rightarrow> rs = []
       | Some d' \<Rightarrow> rs \<noteq> [] \<and> chain srv q (h @ [Get_availabilities (q d)]) d' rs))"

fun chain_dates :: "string \<Rightarrow> avail_doc list \<Rightarrow> string list" where
  "chain_dates d [] = []"
| "chain_dates d (r # rs) =
     d # (case next_slot r of None \<Rightarrow> [] | Some d' \<Rightarrow> chain_dates d' rs)"

text \<open>The availability queries among a list of requests, and the booking requests.\<close>

fun availability_queries :: "request list \<Rightarrow> avail_query list" where
  "availability_queries [] = []"
| "availability_queries (Get_availabilities q # rs) = q # availability_queries rs"
| "availability_queries (_ # rs) = availability_queries rs"

fun booking_requests :: "request list \<Rightarrow> string list" where
  "booking_requests [] = []"
| "booking_requests (Get_doctor_booking d # rs) = d # booking_requests rs"
| "booking_requests (_ # rs) = booking_requests rs"

section \<open>Scenarios\<close>

definition ex_world :: world where
  "ex_world = \<lparr>sent = [], stdin = [], isatty = False, stdout = [], data_dir = False,
                state_file = None, writes = 0\<rparr>"

definition ex_args :: args where
  "ex_args = \<lparr>doctor_id = ''dr-who'', arg_username = ''u'', arg_password = Some ''p'',
               motive_id = None, start_date = None\<rparr>"

text \<open>One motive and two agendas, one of them disabled.\<close>

definition ex_booking :: booking_doc where
  "ex_booking =
     \<lparr>places = [\<lparr>practice_ids = [7]\<rparr>],
      agendas = [\<lparr>agenda_id = 1, visit_motive_ids = [5], booking_disabled = False, practice_id = 7\<rparr>,
                 \<lparr>agenda_id = 2, visit_motive_ids = [5], booking_disabled = True, practice_id = 7\<rparr>],
      profile_id = 3,
      visit_motives = [\<lparr>vm_id = 5, vm_name = ''Consultation''\<rparr>]\<rparr>"

definition ex_first :: avail_doc where
  "ex_first = \<lparr>next_slot = Some ''2024-01-08'', message = None, availabilities = []\<rparr>"

definition ex_second :: avail_doc where
  "ex_second = \<lparr>next_slot = None, message = None, availabilities = [\<lparr>slots = [''X'']\<rparr>]\<rparr>"

text \<open>
  A server that answers the query for 2024-01-01 with \<open>ex_first\<close> and any other
  query with \<open>ex_second\<close>.
\<close>

definition ex_server :: server where
  "ex_server h rq =
     (case rq of
        Get_doctor_booking d \<Rightarrow> Inr (Doc_booking ex_booking)
      | Get_availabilities q \<Rightarrow>
          if q_start_date q = ''2024-01-01'' then Inr (Doc_availabilities ex_first)
          else Inr (Doc_availabilities ex_second)
      | _ \<Rightarrow> Inr Doc_other)"

text \<open>Three agendas for motive 5: one fits practice 7, one is disabled, one is elsewhere.\<close>

definition ex_agendas :: booking_doc where
  "ex_agendas =
     \<lparr>places = [],
      agendas = [\<lparr>agenda_id = 1, visit_motive_ids = [5], booking_disabled = False, practice_id = 7\<rparr>,
                 \<lparr>agenda_id = 2, visit_motive_ids = [5], booking_disabled = True, practice_id = 7\<rparr>,
                 \<lparr>agenda_id = 3, visit_motive_ids = [5], booking_disabled = False, practice_id = 8\<rparr>],
      profile_id = 1,
      visit_motives = []\<rparr>"

text \<open>A last response with a slot, and a message that holds a percent sign.\<close>

definition ex_percent :: avail_doc where
  "ex_percent = \<lparr>next_slot = None, message = Some ''100%'', availabilities = [\<lparr>slots = [''X'']\<rparr>]\<rparr>"

text \<open>The queries of the scenario: motive 5, the one enabled agenda, practice 7.\<close>

definition ex_query :: "string \<Rightarrow> avail_query" where
  "ex_query d = mk_query 5 [''1''] 7 d"

text \<open>A doctor who offers two motives.\<close>

definition ex_two_motives :: booking_doc where
  "ex_two_motives =
     ex_booking\<lparr>visit_motives :=
       [\<lparr>vm_id = 11, vm_name = ''First visit''\<rparr>, \<lparr>vm_id = 22, vm_name = ''Follow-up''\<rparr>]\<rparr>"

text \<open>A server that asks for the second factor and finds every code wrong.\<close>

definition ex_two_factor_server :: server where
  "ex_two_factor_server h rq =
     (case rq of
        Post_login u p \<Rightarrow> Inr (Doc_login ''/sessions/two-factor'')
      | Post_challenge c m \<Rightarrow> Inl HTTPNotFound
      | _ \<Rightarrow> Inr Doc_other)"

definition ex_docto :: docto where
  "ex_docto = \<lparr>username = ''u'', password = ''p''\<rparr>"

text \<open>A server that answers everything with a booking document without places.\<close>

definition ex_no_place_server :: server where
  "ex_no_place_server h rq = Inr (Doc_booking (ex_booking\<lparr>places := []\<rparr>))"


definition ex_patient :: patient where
  "ex_patient = \<lparr>first_name = ''Ada'', last_name = ''Lovelace''\<rparr>"

text \<open>
  A server with one patient whose doctor has no slot until the catalog has been asked
  for twice.
\<close>

definition ex_busy_server :: server where
  "ex_busy_server h rq =
     (case rq of
        Post_login u p \<Rightarrow> Inr (Doc_login ''/'')
      | Get_master_patients \<Rightarrow> Inr (Doc_patients [ex_patient])
      | Get_doctor_booking d \<Rightarrow> Inr (Doc_booking ex_booking)
      | Get_availabilities q \<Rightarrow>
          if length (booking_requests h) < 2
          then Inr (Doc_availabilities \<lparr>next_slot = None, message = None, availabilities = []\<rparr>)
          else Inr (Doc_availabilities ex_second)
      | _ \<Rightarrow> Inr Doc_other)"

text \<open>
  A library whose states are texts, written to the file between double quotes; the
  browser dumps the state it loaded.
\<close>

definition ex_lib :: "string library" where
  "ex_lib =
     \<lparr>json_dump = (\<lambda>s. CHR 0x22 # s @ [CHR 0x22]),
      json_load = (\<lambda>t. case t of
                     [] \<Rightarrow> Inl ValueError
                   | c # r \<Rightarrow> if c = CHR 0x22 \<and> r \<noteq> [] \<and> last r = CHR 0x22
                             then Inr (butlast r) else Inl ValueError),
      empty_dict = [],
      dump_state = (\<lambda>state h. state),
      getpass = ''secret'',
      today = ''2024-01-01'',
      strptime = (\<lambda>s. Inl ''time data does not match format'')\<rparr>"

section \<open>Basic facts\<close>

lemma go_Inr: "srv (sent w) rq = Inr p \<Longrightarrow> go srv rq w = (Returns p, w\<lparr>sent := sent w @ [rq]\<rparr>)"
  by (simp add: go_def)

lemma go_Inl: "srv (sent w) rq = Inl e \<Longrightarrow> go srv rq w = (Raises e, w\<lparr>sent := sent w @ [rq]\<rparr>)"
  by (simp add: go_def)

lemma py_format_plain: "CHR ''%'' \<notin> set s \<Longrightarrow> py_format s [] = Inr s"
  by (induction s) auto

lemma log_plain: "CHR ''%'' \<notin> set s \<Longrightarrow> log s [] w = (Returns (), print s w)"
  by (simp add: log_def py_format_plain)

lemma availability_queries_append:
  "availability_queries (xs @ ys) = availability_queries xs @ availability_queries ys"
  by (induction xs rule: availability_queries.induct) auto

lemma availability_queries_map: "availability_queries (map Get_availabilities qs) = qs"
  by (induction qs) auto

lemma booking_requests_append:
  "booking_requests (xs @ ys) = booking_requests xs @ booking_requests ys"
  by (induction xs rule: booking_requests.induct) auto

lemma booking_requests_map: "booking_requests (map Get_availabilities qs) = []"
  by (induction qs) auto

lemma and_then_keeps:
  assumes "g (snd m) = k" and "\<And>x w1. g w1 = k \<Longrightarrow> g (snd (f x w1)) = k"
  shows "g (snd (and_then m f)) = k"
  using assms by (cases m; cases "fst m") (auto simp: and_then_def)

lemma snd_and_then_return: "snd (and_then m (\<lambda>x w. (Returns (g x), w))) = snd m"
  by (cases m; cases "fst m") (auto simp: and_then_def)

subsection \<open>What each step leaves alone\<close>

lemma go_frame:
  "sent (snd (go srv rq w)) = sent w @ [rq]"
  "stdin (snd (go srv rq w)) = stdin w"
  "writes (snd (go srv rq w)) = writes w"
  by (simp_all add: go_def)


lemma fold_print_frame:
  "sent (fold print ls w) = sent w"
  "stdin (fold print ls w) = stdin w"
  "writes (fold print ls w) = writes w"
  by (induction ls arbitrary: w) (simp_all add: print_def)

lemma ask_frame:
  "sent (snd (ask q xs w)) = sent w"
  "writes (snd (ask q xs w)) = writes w"
  by (simp_all add: ask_def split: prod.splits)


lemma decide_frame:
  "sent (snd (decide doc w)) = sent w"
  "stdin (snd (decide doc w)) = stdin w"
  "writes (snd (decide doc w)) = writes w"
  by (simp_all add: decide_def and_then_def log_def print_def split: sum.splits)

lemma choose_motive_frame:
  "sent (snd (choose_motive vms w)) = sent w"
  "writes (snd (choose_motive vms w)) = writes w"
  unfolding choose_motive_def Let_def
  by (auto intro!: and_then_keeps[where g = sent] and_then_keeps[where g = writes]
       simp: ask_frame fold_print_frame print_def)

lemma select_motive_frame:
  "sent (snd (select_motive doc a w)) = sent w"
  "writes (snd (select_motive doc a w)) = writes w"
  by (simp_all add: select_motive_def choose_motive_frame split: option.splits)

lemma select_motive_given:
  "motive_id a = Some m \<Longrightarrow> m \<noteq> 0 \<Longrightarrow> select_motive doc a w = (Returns m, w)"
  by (simp add: select_motive_def)

lemma poll_frame:
  "stdin (snd (poll n srv q d w)) = stdin w"
  "writes (snd (poll n srv q d w)) = writes w"
  by (induction n arbitrary: d w; simp add: go_def split: sum.splits response.splits option.splits)+

section \<open>The availability poller\<close>

lemma chain_dates_length: "chain srv q h d rs \<Longrightarrow> length (chain_dates d rs) = length rs"
  by (induction rs arbitrary: h d) (auto split: option.splits)

text \<open>
  Along a response chain the loop issues one query per document, for the dates of the
  chain, and returns the last document.
\<close>

lemma poll_chain:
  "chain srv q (sent w) d rs \<Longrightarrow> length rs \<le> n \<Longrightarrow>
   poll n srv q d w =
     (Returns (last rs),
      w\<lparr>sent := sent w @ map (\<lambda>x. Get_availabilities (q x)) (chain_dates d rs)\<rparr>)"
proof (induction rs arbitrary: n d w)
  case Nil
  then show ?case by simp
next
  case (Cons r rs)
  from Cons.prems obtain k where n: "n = Suc k" and k: "length rs \<le> k"
    by (cases n) auto
  from Cons.prems have resp: "srv (sent w) (Get_availabilities (q d)) = Inr (Doc_availabilities r)"
    by simp
  let ?w1 = "w\<lparr>sent := sent w @ [Get_availabilities (q d)]\<rparr>"
  show ?case
  proof (cases "next_slot r")
    case None
    with Cons.prems have "rs = []" by simp
    with None resp n show ?thesis by (simp add: go_Inr)
  next
    case (Some d')
    with Cons.prems have ne: "rs \<noteq> []" and ch: "chain srv q (sent ?w1) d' rs"
      by simp_all
    from Cons.IH[OF ch k] Some resp n ne show ?thesis
      by (simp add: go_Inr)
  qed
qed

text \<open>Whatever the server answers, the loop sends availability queries only.\<close>

lemma poll_sent:
  "\<exists>ds. sent (snd (poll n srv q d w)) = sent w @ map (\<lambda>x. Get_availabilities (q x)) ds"
proof (induction n arbitrary: d w)
  case 0
  show ?case by (rule exI[of _ "[]"]) simp
next
  case (Suc n)
  let ?w1 = "w\<lparr>sent := sent w @ [Get_availabilities (q d)]\<rparr>"
  have one: "sent ?w1 = sent w @ map (\<lambda>x. Get_availabilities (q x)) [d]" by simp
  show ?case
  proof (cases "srv (sent w) (Get_availabilities (q d))")
    case (Inl e)
    then have "poll (Suc n) srv q d w = (Raises e, ?w1)" by (simp add: go_def)
    with one show ?thesis by (metis snd_conv)
  next
    case (Inr page)
    show ?thesis
    proof (cases "\<exists>doc d'. page = Doc_availabilities doc \<and> next_slot doc = Some d'")
      case True
      then obtain doc d' where p: "page = Doc_availabilities doc" "next_slot doc = Some d'"
        by blast
      with Inr have eq: "poll (Suc n) srv q d w = poll n srv q d' ?w1" by (simp add: go_def)
      from Suc.IH[of d' ?w1] obtain ds where
        "sent (snd (poll n srv q d' ?w1)) = sent ?w1 @ map (\<lambda>x. Get_availabilities (q x)) ds"
        by blast
      then have "sent (snd (poll (Suc n) srv q d w)) =
                   sent w @ map (\<lambda>x. Get_availabilities (q x)) (d # ds)"
        using eq by simp
      then show ?thesis by blast
    next
      case False
      with Inr have "snd (poll (Suc n) srv q d w) = ?w1"
        by (cases page) (auto simp: go_def split: option.splits)
      with one show ?thesis by metis
    qed
  qed
qed

text \<open>The run of the scenario, computed step by step.\<close>

lemma ex_run:
  "has_availability 2 ex_server ex_args ''2024-01-01'' ex_world =
     (Returns (True, ex_args\<lparr>motive_id := Some 5\<rparr>),
      ex_world\<lparr>sent := [Get_doctor_booking ''dr-who'', Get_availabilities (ex_query ''2024-01-01''),
                        Get_availabilities (ex_query ''2024-01-08'')],
               stdout := [[], ''availabilities: '' @ repr_availabilities [\<lparr>slots = [''X'']\<rparr>]]\<rparr>)"
  by (simp add: has_availability_def go_def and_then_def ex_server_def ex_args_def ex_world_def
      ex_booking_def ex_first_def ex_second_def get_practice_def py_getitem_def select_motive_def
      choose_motive_def get_agenda_ids_def falsy_def str_int_def str_nat.simps digit_char_def
      numeral_2_eq_2 decide_def log_def print_def ex_query_def mk_query_def Let_def)

text \<open>
  Claim C1. Once the catalog is resolved (booking document, practice id, motive), a run
  of the poller against a response chain issues exactly one query per response: the
  first with the start date, each following one with the \<open>next_slot\<close> of the response
  before it. It stops at the response without \<open>next_slot\<close>, and its answer is the
  decision taken on that last response alone. In particular, when the chain is a
  response with \<open>next_slot\<close> \<open>d2\<close> and no availabilities followed by a response with one
  slot, two queries are made, for the start date and for \<open>d2\<close>, and the answer is true.
\<close>

theorem has_availability_walks_chain:
  assumes "srv (sent w) (Get_doctor_booking (doctor_id a)) = Inr (Doc_booking doc)"
    and "get_practice doc = Inr practice"
    and "select_motive doc a (w\<lparr>sent := sent w @ [Get_doctor_booking (doctor_id a)]\<rparr>) =
           (Returns motive, w2)"
    and "chain srv (mk_query motive (get_agenda_ids doc motive (Some practice)) practice)
           (sent w2) start rs"
    and "length rs \<le> n"
  shows "has_availability n srv a start w =
           and_then
             (decide (last rs)
                (w2\<lparr>sent := sent w2 @
                   map (\<lambda>d. Get_availabilities
                              (mk_query motive (get_agenda_ids doc motive (Some practice)) practice d))
                     (chain_dates start rs)\<rparr>))
             (\<lambda>b w4. (Returns (b, a\<lparr>motive_id := Some motive\<rparr>), w4))
         \<and> length (chain_dates start rs) = length rs
         \<and> (rs = [\<lparr>next_slot = Some d2, message = None, availabilities = []\<rparr>,
                   \<lparr>next_slot = None, message = None, availabilities = [\<lparr>slots = [x]\<rparr>]\<rparr>] \<longrightarrow>
              fst (has_availability n srv a start w) =
                Returns (True, a\<lparr>motive_id := Some motive\<rparr>) \<and>
              map q_start_date
                (availability_queries
                   (drop (length (sent w)) (sent (snd (has_availability n srv a start w))))) =
                [start, d2])"
proof -
  let ?q = "mk_query motive (get_agenda_ids doc motive (Some practice)) practice"
  let ?W = "w2\<lparr>sent := sent w2 @ map (\<lambda>d. Get_availabilities (?q d)) (chain_dates start rs)\<rparr>"
  have H: "has_availability n srv a start w =
           and_then (decide (last rs) ?W)
             (\<lambda>b w4. (Returns (b, a\<lparr>motive_id := Some motive\<rparr>), w4))"
    using assms poll_chain[OF assms(4,5)]
    by (simp add: has_availability_def go_Inr and_then_def Let_def)
  have s2: "sent w2 = sent w @ [Get_doctor_booking (doctor_id a)]"
    using select_motive_frame(1)[of doc a "w\<lparr>sent := sent w @ [Get_doctor_booking (doctor_id a)]\<rparr>"]
      assms(3) by simp
  have two: "fst (has_availability n srv a start w) =
               Returns (True, a\<lparr>motive_id := Some motive\<rparr>) \<and>
             map q_start_date
               (availability_queries
                  (drop (length (sent w)) (sent (snd (has_availability n srv a start w))))) =
               [start, d2]"
    if rs: "rs = [\<lparr>next_slot = Some d2, message = None, availabilities = []\<rparr>,
                  \<lparr>next_slot = None, message = None, availabilities = [\<lparr>slots = [x]\<rparr>]\<rparr>]"
  proof -
    have "sent (snd (has_availability n srv a start w)) = sent ?W"
      unfolding H by (simp add: snd_and_then_return decide_frame)
    then have "availability_queries
                 (drop (length (sent w)) (sent (snd (has_availability n srv a start w)))) =
               [?q start, ?q d2]"
      using s2 rs by simp
    moreover have "fst (has_availability n srv a start w) =
                     Returns (True, a\<lparr>motive_id := Some motive\<rparr>)"
      unfolding H using rs by (simp add: decide_def and_then_def log_def)
    ultimately show ?thesis by (simp add: mk_query_def)
  qed
  from H chain_dates_length[OF assms(4)] two show ?thesis by blast
qed

text \<open>
  The scenario of the specification: from 2024-01-01 the server answers with
  \<open>next_slot\<close> 2024-01-08 and no availabilities, then with one slot and no
  \<open>next_slot\<close>. Two queries are made, the second for 2024-01-08, and the answer is true.
\<close>

theorem has_availability_walks_chain_witness:
  "fst (has_availability 2 ex_server ex_args ''2024-01-01'' ex_world) =
     Returns (True, ex_args\<lparr>motive_id := Some 5\<rparr>) \<and>
   map q_start_date (availability_queries
       (sent (snd (has_availability 2 ex_server ex_args ''2024-01-01'' ex_world)))) =
     [''2024-01-01'', ''2024-01-08'']"
  using has_availability_walks_chain[of ex_server ex_world ex_args ex_booking 7 5
      "ex_world\<lparr>sent := [Get_doctor_booking ''dr-who'']\<rparr>" "''2024-01-01''"
      "[ex_first, ex_second]" 2 "''2024-01-08''" "''X''"]
  by (simp add: ex_server_def ex_world_def ex_args_def ex_booking_def ex_first_def ex_second_def
      get_practice_def py_getitem_def select_motive_def choose_motive_def mk_query_def
      decide_def log_def and_then_def print_def)

section \<open>The availability decision\<close>

text \<open>
  With no message, or a message without a percent sign, the decision is true exactly
  when some entry of \<open>availabilities\<close> has a slot.
\<close>

lemma decide_plain:
  assumes "case message doc of None \<Rightarrow> True | Some m \<Rightarrow> CHR ''%'' \<notin> set m"
  shows "fst (decide doc w) =
           Returns (availabilities doc \<noteq> [] \<and> (\<exists>a\<in>set (availabilities doc). slots a \<noteq> []))"
  using assms
  by (cases "message doc")
     (auto simp: decide_def and_then_def log_def py_format_plain list_ex_iff)

lemma decide_examples:
  "fst (decide \<lparr>next_slot = None, message = None, availabilities = []\<rparr> w) = Returns False"
  "fst (decide \<lparr>next_slot = None, message = None, availabilities = [\<lparr>slots = []\<rparr>]\<rparr> w)
     = Returns False"
  "fst (decide \<lparr>next_slot = None, message = None,
                availabilities = [\<lparr>slots = []\<rparr>, \<lparr>slots = [x]\<rparr>]\<rparr> w) = Returns True"
  by (simp_all add: decide_def and_then_def log_def)

text \<open>
  Claim C2. The message of the last response does bear on the outcome: \<open>log\<close> uses it
  as a format string, so on the message \<open>100%\<close> the call raises \<open>ValueError\<close>, where the
  same response without the message is answered with true.
\<close>

theorem decide_message_percent:
  "decide ex_percent w = (Raises ValueError, w) \<and>
   fst (decide (ex_percent\<lparr>message := None\<rparr>) w) = Returns True"
  by (simp add: ex_percent_def decide_def and_then_def log_def)

theorem decide_message_percent_witness:
  "decide ex_percent ex_world = (Raises ValueError, ex_world) \<and>
   fst (decide (ex_percent\<lparr>message := None\<rparr>) ex_world) = Returns True"
  using decide_message_percent[of ex_world] by simp

section \<open>Agenda selection\<close>

text \<open>
  Claim C3, amended. \<open>get_agenda_ids\<close> returns exactly the agendas that list the motive
  id, are not disabled and, when a practice id other than 0 is given, have that practice
  id. The practice id 0 is taken as no practice id at all.
\<close>

theorem get_agenda_ids_agendasFor:
  "(pr \<noteq> Some 0 \<longrightarrow> get_agenda_ids doc m pr = agendasFor doc m pr) \<and>
   get_agenda_ids doc m (Some 0) = agendasFor doc m None"
  by (cases pr) (auto simp: get_agenda_ids_def agendasFor_def falsy_def intro!: filter_cong)

theorem get_agenda_ids_agendasFor_witness:
  "Some 7 \<noteq> Some (0::int) \<and> get_agenda_ids ex_agendas 5 (Some 7) = [''1''] \<and>
   get_agenda_ids ex_agendas 5 (Some 0) = [''1'', ''3'']"
  using get_agenda_ids_agendasFor[of "Some 7" ex_agendas 5]
  by (simp add: ex_agendas_def agendasFor_def str_int_def str_nat.simps digit_char_def)

text \<open>
  The claim as stated fails for the practice id 0: the agenda of practice 8 is
  returned, which \<open>agendasFor\<close> leaves out.
\<close>

theorem get_agenda_ids_practice_zero:
  "get_agenda_ids ex_agendas 5 (Some 0) = [''1'', ''3''] \<and> agendasFor ex_agendas 5 (Some 0) = []"
  by (simp add: ex_agendas_def get_agenda_ids_def agendasFor_def falsy_def str_int_def
      str_nat.simps digit_char_def)

section \<open>Motive selection\<close>

text \<open>No motive is an error, a single motive is taken without asking.\<close>

lemma choose_motive_none:
  "choose_motive [] w =
     (Raises (EnvironmentError ''Doctor does not offer any consultation ATM''), w)"
  by (simp add: choose_motive_def)

lemma choose_motive_one: "choose_motive [vm] w = (Returns (vm_id vm), w)"
  by (simp add: choose_motive_def)

text \<open>
  A line that is not a number, and an index that is at least the number of choices or
  below its negation, make the loop ask again.
\<close>

lemma ask_loop_not_int:
  "py_int (strip l) = Inl e \<Longrightarrow> ask_loop q xs (l # ls) out = ask_loop q xs ls (out @ [q])"
  by simp

lemma ask_loop_out_of_range:
  "py_int (strip l) = Inr i \<Longrightarrow> int (length xs) \<le> i \<or> i < - int (length xs) \<Longrightarrow>
   ask_loop q xs (l # ls) out = ask_loop q xs ls (out @ [q])"
  by (auto simp: py_getitem_def Let_def)

lemma ask_loop_in_range:
  "py_int (strip l) = Inr i \<Longrightarrow> 0 \<le> i \<Longrightarrow> i < int (length xs) \<Longrightarrow>
   ask_loop q xs (l # ls) out = (Some (xs ! nat i), ls, out @ [q])"
  by (auto simp: py_getitem_def Let_def)

text \<open>A negative index down to minus the number of choices selects from the end.\<close>

lemma ask_loop_negative:
  "py_int (strip l) = Inr i \<Longrightarrow> - int (length xs) \<le> i \<Longrightarrow> i < 0 \<Longrightarrow>
   ask_loop q xs (l # ls) out = (Some (xs ! nat (i + int (length xs))), ls, out @ [q])"
  by (auto simp: py_getitem_def Let_def)

lemma py_int_minus_one: "py_int (strip ''-1'') = Inr (- 1)"
  by (simp add: py_int_def strip_def is_space_def digit_val_def)

text \<open>
  Claim C4. With two motives on offer and no motive id given, the answer \<open>-1\<close>, an
  index outside the range from 0 to 2, is not rejected: it selects the last motive.
\<close>

theorem select_motive_negative_index:
  "stdin w = [''-1''] \<Longrightarrow> motive_id a = None \<Longrightarrow>
   fst (select_motive ex_two_motives a w) = Returns 22 \<and>
   stdin (snd (select_motive ex_two_motives a w)) = []"
  by (simp add: select_motive_def choose_motive_def ex_two_motives_def ex_booking_def ask_def
      and_then_def py_int_minus_one py_getitem_def print_def split: prod.splits)

theorem select_motive_negative_index_witness:
  "fst (select_motive ex_two_motives ex_args (ex_world\<lparr>stdin := [''-1'']\<rparr>)) = Returns 22"
  using select_motive_negative_index[of "ex_world\<lparr>stdin := [''-1'']\<rparr>" ex_args]
  by (simp add: ex_args_def ex_world_def)

section \<open>Login\<close>

lemma two_factor_no_tty:
  "\<not> isatty w \<Longrightarrow>
   two_factor srv (Doc_login ''/sessions/two-factor'') w =
     (Returns False, w\<lparr>stdout := stdout w @ [''Requesting 2fa code...'', no_terminal_message]\<rparr>)"
  by (simp add: two_factor_def redirect_def print_def and_then_def log_plain quoted_def
      no_terminal_message_def)

lemma two_factor_invalid_code:
  assumes "isatty w" and "stdin w = code # rest"
    and "srv (sent w) (Post_send_auth_code ''email'') = Inr p1"
    and "srv (sent w @ [Post_send_auth_code ''email'']) (Post_challenge code ''email'') =
           Inl HTTPNotFound"
  shows "two_factor srv (Doc_login ''/sessions/two-factor'') w =
     (Returns False,
      w\<lparr>sent := sent w @ [Post_send_auth_code ''email'', Post_challenge code ''email''],
        stdin := rest,
        stdout := stdout w @ [''Requesting 2fa code...'', ''Enter auth code: '',
                              ''Invalid auth code'']\<rparr>)"
  using assms
  by (simp add: two_factor_def redirect_def print_def and_then_def go_def input_def)

lemma do_login_accepted:
  assumes "srv (sent w) Get_sessions_new = Inr p0"
    and "srv (sent w @ [Get_sessions_new]) (Post_login (username d) (password d)) = Inr page"
  shows "do_login srv d w =
     two_factor srv page
       (w\<lparr>sent := sent w @ [Get_sessions_new, Post_login (username d) (password d)]\<rparr>)"
  using assms by (simp add: do_login_def go_def)


text \<open>
  Claim C5. When the login answers with the two-factor path: without a terminal,
  \<open>do_login\<close> returns false after printing the diagnostic, and the only requests made
  are the session page and the login; with a terminal, the code is requested by email,
  one line is read, the code is submitted once, and on \<open>HTTPNotFound\<close> the call prints
  \<open>Invalid auth code\<close> and returns false, the second line left unread.
\<close>

theorem two_factor_flow:
  assumes "srv (sent w) Get_sessions_new = Inr p0"
    and "srv (sent w @ [Get_sessions_new]) (Post_login (username d) (password d)) =
           Inr (Doc_login ''/sessions/two-factor'')"
  shows
   "(\<not> isatty w \<longrightarrow>
       do_login srv d w =
         (Returns False,
          w\<lparr>sent := sent w @ [Get_sessions_new, Post_login (username d) (password d)],
            stdout := stdout w @ [''Requesting 2fa code...'', no_terminal_message]\<rparr>)) \<and>
    (isatty w \<and> stdin w = code # rest \<and>
     srv (sent w @ [Get_sessions_new, Post_login (username d) (password d)])
        (Post_send_auth_code ''email'') = Inr p1 \<and>
     srv (sent w @ [Get_sessions_new, Post_login (username d) (password d),
                    Post_send_auth_code ''email''])
        (Post_challenge code ''email'') = Inl HTTPNotFound \<longrightarrow>
       do_login srv d w =
         (Returns False,
          w\<lparr>sent := sent w @ [Get_sessions_new, Post_login (username d) (password d),
                              Post_send_auth_code ''email'', Post_challenge code ''email''],
            stdin := rest,
            stdout := stdout w @ [''Requesting 2fa code...'', ''Enter auth code: '',
                                  ''Invalid auth code'']\<rparr>))"
proof (intro conjI impI)
  let ?w2 = "w\<lparr>sent := sent w @ [Get_sessions_new, Post_login (username d) (password d)]\<rparr>"
  assume "\<not> isatty w"
  then have "\<not> isatty ?w2" by simp
  from two_factor_no_tty[OF this] do_login_accepted[OF assms]
  show "do_login srv d w =
         (Returns False,
          w\<lparr>sent := sent w @ [Get_sessions_new, Post_login (username d) (password d)],
            stdout := stdout w @ [''Requesting 2fa code...'', no_terminal_message]\<rparr>)"
    by simp
next
  let ?w2 = "w\<lparr>sent := sent w @ [Get_sessions_new, Post_login (username d) (password d)]\<rparr>"
  assume h: "isatty w \<and> stdin w = code # rest \<and>
     srv (sent w @ [Get_sessions_new, Post_login (username d) (password d)])
        (Post_send_auth_code ''email'') = Inr p1 \<and>
     srv (sent w @ [Get_sessions_new, Post_login (username d) (password d),
                    Post_send_auth_code ''email''])
        (Post_challenge code ''email'') = Inl HTTPNotFound"
  have "two_factor srv (Doc_login ''/sessions/two-factor'') ?w2 =
     (Returns False,
      ?w2\<lparr>sent := sent ?w2 @ [Post_send_auth_code ''email'', Post_challenge code ''email''],
        stdin := rest,
        stdout := stdout ?w2 @ [''Requesting 2fa code...'', ''Enter auth code: '',
                                ''Invalid auth code'']\<rparr>)"
    by (rule two_factor_invalid_code[where ?p1.0 = p1]) (use h in simp_all)
  with do_login_accepted[OF assms]
  show "do_login srv d w =
         (Returns False,
          w\<lparr>sent := sent w @ [Get_sessions_new, Post_login (username d) (password d),
                              Post_send_auth_code ''email'', Post_challenge code ''email''],
            stdin := rest,
            stdout := stdout w @ [''Requesting 2fa code...'', ''Enter auth code: '',
                                  ''Invalid auth code'']\<rparr>)"
    by simp
qed

theorem two_factor_flow_witness:
  "do_login ex_two_factor_server ex_docto ex_world =
     (Returns False,
      ex_world\<lparr>sent := [Get_sessions_new, Post_login ''u'' ''p''],
               stdout := [''Requesting 2fa code...'', no_terminal_message]\<rparr>) \<and>
   do_login ex_two_factor_server ex_docto
       (ex_world\<lparr>isatty := True, stdin := [''123456'', ''654321'']\<rparr>) =
     (Returns False,
      ex_world\<lparr>isatty := True,
               sent := [Get_sessions_new, Post_login ''u'' ''p'', Post_send_auth_code ''email'',
                        Post_challenge ''123456'' ''email''],
               stdin := [''654321''],
               stdout := [''Requesting 2fa code...'', ''Enter auth code: '',
                          ''Invalid auth code'']\<rparr>)"
  using two_factor_flow[of ex_two_factor_server ex_world Doc_other ex_docto]
        two_factor_flow[of ex_two_factor_server
             "ex_world\<lparr>isatty := True, stdin := [''123456'', ''654321'']\<rparr>"
             Doc_other ex_docto "''123456''" "[''654321'']" Doc_other]
  by (simp add: ex_two_factor_server_def ex_docto_def ex_world_def)

section \<open>The requests of has_availability\<close>

lemma get_practice_Inr:
  "places doc \<noteq> [] \<Longrightarrow> practice_ids (hd (places doc)) \<noteq> [] \<Longrightarrow>
   get_practice doc = Inr (hd (practice_ids (hd (places doc))))"
  by (cases "places doc"; cases "practice_ids (hd (places doc))")
     (auto simp: get_practice_def py_getitem_def)

lemma get_practice_Inl:
  "places doc = [] \<or> practice_ids (hd (places doc)) = [] \<Longrightarrow> get_practice doc = Inl IndexError"
  by (cases "places doc") (auto simp: get_practice_def py_getitem_def)

text \<open>
  With a booking document and a practice id, the call sends the booking request and
  then availability queries for one motive, the agendas selected for it and that
  practice id.
\<close>

lemma has_availability_queries:
  assumes b: "srv (sent w) (Get_doctor_booking (doctor_id a)) = Inr (Doc_booking doc)"
    and p: "get_practice doc = Inr pr"
  shows "\<exists>mot ds.
           sent (snd (has_availability n srv a start w)) =
             sent w @ Get_doctor_booking (doctor_id a) #
               map (\<lambda>d. Get_availabilities (mk_query mot (get_agenda_ids doc mot (Some pr)) pr d)) ds \<and>
           (\<forall>m. motive_id a = Some m \<and> m \<noteq> 0 \<longrightarrow> mot = m)"
proof -
  let ?w1 = "w\<lparr>sent := sent w @ [Get_doctor_booking (doctor_id a)]\<rparr>"
  obtain r w2 where sm: "select_motive doc a ?w1 = (r, w2)"
    by (cases "select_motive doc a ?w1")
  have s2: "sent w2 = sent w @ [Get_doctor_booking (doctor_id a)]"
    using select_motive_frame(1)[of doc a ?w1] sm by simp
  show ?thesis
  proof (cases "\<exists>mot. r = Returns mot")
    case False
    then have "snd (has_availability n srv a start w) = w2"
      using b p sm by (cases r) (auto simp: has_availability_def go_Inr and_then_def)
    moreover have "\<forall>m. motive_id a = Some m \<and> m \<noteq> 0 \<longrightarrow>
                     (case motive_id a of Some m \<Rightarrow> m | None \<Rightarrow> 0) = m"
      by simp
    ultimately show ?thesis using s2
      by (intro exI[of _ "case motive_id a of Some m \<Rightarrow> m | None \<Rightarrow> 0"] exI[of _ "[]"]) simp
  next
    case True
    then obtain mot where r: "r = Returns mot" by blast
    let ?q = "mk_query mot (get_agenda_ids doc mot (Some pr)) pr"
    have given: "\<forall>m. motive_id a = Some m \<and> m \<noteq> 0 \<longrightarrow> mot = m"
      using sm r by (auto simp: select_motive_given)
    obtain ds where
      ds: "sent (snd (poll n srv ?q start w2)) = sent w2 @ map (\<lambda>x. Get_availabilities (?q x)) ds"
      using poll_sent by blast
    have H: "has_availability n srv a start w =
        and_then (poll n srv ?q start w2) (\<lambda>last_doc w3.
          and_then (decide last_doc w3) (\<lambda>b w4. (Returns (b, a\<lparr>motive_id := Some mot\<rparr>), w4)))"
      using b p sm r by (simp add: has_availability_def go_Inr and_then_def Let_def)
    have "sent (snd (has_availability n srv a start w)) = sent (snd (poll n srv ?q start w2))"
      unfolding H
      by (rule and_then_keeps[where g = sent]) (simp_all add: snd_and_then_return decide_frame)
    with ds s2 given show ?thesis by auto
  qed
qed

text \<open>Without them it sends the booking request and nothing else.\<close>

lemma has_availability_no_catalog:
  assumes "\<not> (\<exists>doc pr. srv (sent w) (Get_doctor_booking (doctor_id a)) = Inr (Doc_booking doc) \<and>
                       get_practice doc = Inr pr)"
  shows "snd (has_availability n srv a start w) =
           w\<lparr>sent := sent w @ [Get_doctor_booking (doctor_id a)]\<rparr>"
proof (cases "srv (sent w) (Get_doctor_booking (doctor_id a))")
  case (Inl e)
  then show ?thesis by (simp add: has_availability_def go_Inl and_then_def)
next
  case (Inr page)
  with assms show ?thesis
    by (cases page; cases "get_practice (case page of Doc_booking d \<Rightarrow> d)")
       (auto simp: has_availability_def go_Inr and_then_def)
qed

lemma has_availability_sent:
  "\<exists>qs. sent (snd (has_availability n srv a start w)) =
          sent w @ Get_doctor_booking (doctor_id a) # map Get_availabilities qs \<and>
        (\<forall>m. motive_id a = Some m \<and> m \<noteq> 0 \<longrightarrow> (\<forall>q\<in>set qs. q_visit_motive_ids q = m))"
proof (cases "\<exists>doc pr. srv (sent w) (Get_doctor_booking (doctor_id a)) = Inr (Doc_booking doc) \<and>
                        get_practice doc = Inr pr")
  case True
  then obtain doc pr where
    "srv (sent w) (Get_doctor_booking (doctor_id a)) = Inr (Doc_booking doc)"
    "get_practice doc = Inr pr"
    by blast
  from has_availability_queries[where srv = srv and w = w and a = a and doc = doc and pr = pr
      and n = n and start = start, OF this] obtain mot ds where
    s: "sent (snd (has_availability n srv a start w)) =
             sent w @ Get_doctor_booking (doctor_id a) #
               map (\<lambda>d. Get_availabilities (mk_query mot (get_agenda_ids doc mot (Some pr)) pr d)) ds"
    and m: "\<forall>m. motive_id a = Some m \<and> m \<noteq> 0 \<longrightarrow> mot = m" by blast
  show ?thesis
    by (rule exI[of _ "map (mk_query mot (get_agenda_ids doc mot (Some pr)) pr) ds"])
       (use s m in \<open>auto simp: mk_query_def comp_def\<close>)
next
  case False
  from has_availability_no_catalog[where srv = srv and w = w and a = a and n = n and start = start,
      OF this] show ?thesis
    by (intro exI[of _ "[]"]) simp
qed


lemma has_availability_stdin:
  "motive_id a = Some m \<Longrightarrow> m \<noteq> 0 \<Longrightarrow> stdin (snd (has_availability n srv a start w)) = stdin w"
  unfolding has_availability_def Let_def
  by (auto intro!: and_then_keeps[where g = stdin]
        simp: go_frame select_motive_given poll_frame decide_frame split: response.splits sum.splits)

text \<open>What a call that returns has gone through.\<close>

lemma has_availability_ReturnsE:
  assumes "has_availability n srv a start w = (Returns (b, a'), w')"
  obtains doc pr mot w2 last_doc w3 where
    "srv (sent w) (Get_doctor_booking (doctor_id a)) = Inr (Doc_booking doc)"
    "get_practice doc = Inr pr"
    "select_motive doc a (w\<lparr>sent := sent w @ [Get_doctor_booking (doctor_id a)]\<rparr>) =
       (Returns mot, w2)"
    "poll n srv (mk_query mot (get_agenda_ids doc mot (Some pr)) pr) start w2 =
       (Returns last_doc, w3)"
    "decide last_doc w3 = (Returns b, w')"
    "a' = a\<lparr>motive_id := Some mot\<rparr>"
  using assms
  by (auto simp: has_availability_def go_def and_then_def Let_def
      split: sum.splits response.splits prod.splits outcome.splits)

lemma has_availability_args:
  assumes "has_availability n srv a start w = (Returns (b, a'), w')"
    and "motive_id a = Some m" and "m \<noteq> 0"
  shows "a' = a \<and> stdin w' = stdin w"
proof -
  from assms(1) obtain doc pr mot w2 last_doc w3 where
    sm: "select_motive doc a (w\<lparr>sent := sent w @ [Get_doctor_booking (doctor_id a)]\<rparr>) =
           (Returns mot, w2)"
    and po: "poll n srv (mk_query mot (get_agenda_ids doc mot (Some pr)) pr) start w2 =
               (Returns last_doc, w3)"
    and de: "decide last_doc w3 = (Returns b, w')"
    and a': "a' = a\<lparr>motive_id := Some mot\<rparr>"
    by (rule has_availability_ReturnsE)
  from sm assms(2,3) have "mot = m" "w2 = w\<lparr>sent := sent w @ [Get_doctor_booking (doctor_id a)]\<rparr>"
    by (simp_all add: select_motive_given)
  moreover have "stdin w3 = stdin w2"
    using poll_frame(1)[of n srv "mk_query mot (get_agenda_ids doc mot (Some pr)) pr" start w2] po
    by simp
  moreover have "stdin w' = stdin w3" using decide_frame(2)[of last_doc w3] de by simp
  ultimately show ?thesis using a' assms(2) by simp
qed

text \<open>
  Claim C10. The practice id is the first practice id of the first place. When there is
  no place, or the first place has no practice id, the call raises \<open>IndexError\<close> after
  the booking request and makes no query. Otherwise every query the call makes carries
  that practice id, and agenda ids selected with it.
\<close>

theorem practice_is_first_of_first_place:
  assumes "srv (sent w) (Get_doctor_booking (doctor_id a)) = Inr (Doc_booking doc)"
  shows
    "(places doc = [] \<or> practice_ids (hd (places doc)) = [] \<longrightarrow>
        has_availability n srv a start w =
          (Raises IndexError, w\<lparr>sent := sent w @ [Get_doctor_booking (doctor_id a)]\<rparr>)) \<and>
     (places doc \<noteq> [] \<and> practice_ids (hd (places doc)) \<noteq> [] \<longrightarrow>
        (\<forall>q \<in> set (availability_queries
                     (drop (length (sent w)) (sent (snd (has_availability n srv a start w))))).
           q_practice_ids q = hd (practice_ids (hd (places doc))) \<and>
           q_agenda_ids q =
             join ''-'' (get_agenda_ids doc (q_visit_motive_ids q)
                          (Some (hd (practice_ids (hd (places doc))))))))"
proof (intro conjI impI)
  assume "places doc = [] \<or> practice_ids (hd (places doc)) = []"
  from get_practice_Inl[OF this] assms
  show "has_availability n srv a start w =
          (Raises IndexError, w\<lparr>sent := sent w @ [Get_doctor_booking (doctor_id a)]\<rparr>)"
    by (simp add: has_availability_def go_Inr and_then_def)
next
  let ?pr = "hd (practice_ids (hd (places doc)))"
  assume "places doc \<noteq> [] \<and> practice_ids (hd (places doc)) \<noteq> []"
  then have p: "get_practice doc = Inr ?pr" by (simp add: get_practice_Inr)
  from has_availability_queries[where srv = srv and w = w and a = a and doc = doc and pr = ?pr
      and n = n and start = start, OF assms p]
  obtain mot ds where
    "sent (snd (has_availability n srv a start w)) =
       sent w @ Get_doctor_booking (doctor_id a) #
         map (\<lambda>d. Get_availabilities (mk_query mot (get_agenda_ids doc mot (Some ?pr)) ?pr d)) ds"
    by blast
  then have "availability_queries
               (drop (length (sent w)) (sent (snd (has_availability n srv a start w)))) =
             map (mk_query mot (get_agenda_ids doc mot (Some ?pr)) ?pr) ds"
    using availability_queries_map[of "map (mk_query mot (get_agenda_ids doc mot (Some ?pr)) ?pr) ds"]
    by (simp add: comp_def)
  then show "\<forall>q \<in> set (availability_queries
                     (drop (length (sent w)) (sent (snd (has_availability n srv a start w))))).
           q_practice_ids q = ?pr \<and>
           q_agenda_ids q = join ''-'' (get_agenda_ids doc (q_visit_motive_ids q) (Some ?pr))"
    by (auto simp: mk_query_def)
qed

theorem practice_is_first_of_first_place_witness:
  "has_availability 2 ex_no_place_server ex_args ''2024-01-01'' ex_world =
     (Raises IndexError, ex_world\<lparr>sent := [Get_doctor_booking ''dr-who'']\<rparr>) \<and>
   map (\<lambda>q. (q_practice_ids q, q_agenda_ids q))
     (availability_queries (sent (snd (has_availability 2 ex_server ex_args ''2024-01-01'' ex_world))))
     = [(7, ''1''), (7, ''1'')]"
  using practice_is_first_of_first_place[of ex_no_place_server ex_world ex_args
          "ex_booking\<lparr>places := []\<rparr>" 2 "''2024-01-01''"]
        practice_is_first_of_first_place[of ex_server ex_world ex_args ex_booking 2 "''2024-01-01''"]
  by (simp add: ex_run ex_query_def mk_query_def)
     (simp add: ex_no_place_server_def ex_world_def ex_args_def)

section \<open>The poll loop\<close>

text \<open>
  With a motive id other than 0 in \<open>args\<close>, every query of the loop is for that motive
  and nothing is read from standard input.
\<close>

lemma wait_for_slot_fixed_motive:
  assumes "motive_id a = Some m" and "m \<noteq> 0"
  shows "\<exists>ext. sent (snd (wait_for_slot k n srv a start w)) = sent w @ ext \<and>
               (\<forall>q\<in>set (availability_queries ext). q_visit_motive_ids q = m) \<and>
               stdin (snd (wait_for_slot k n srv a start w)) = stdin w"
proof (induction k arbitrary: w)
  case 0
  show ?case by simp
next
  case (Suc k)
  obtain r w1 where H: "has_availability n srv a start w = (r, w1)"
    by (cases "has_availability n srv a start w")
  from has_availability_sent[of n srv a start w] H assms obtain qs where
    s1: "sent w1 = sent w @ Get_doctor_booking (doctor_id a) # map Get_availabilities qs"
    and q1: "\<forall>q\<in>set qs. q_visit_motive_ids q = m" by auto
  have i1: "stdin w1 = stdin w" using has_availability_stdin[OF assms, of n srv start w] H by simp
  let ?new = "Get_doctor_booking (doctor_id a) # map Get_availabilities qs"
  have here: "\<forall>q\<in>set (availability_queries ?new). q_visit_motive_ids q = m"
    using q1 by (simp add: availability_queries_map)
  show ?case
  proof (cases "\<exists>a'. r = Returns (False, a')")
    case True
    then obtain a' where r: "r = Returns (False, a')" by blast
    with H assms have "a' = a" using has_availability_args by blast
    with H r have eq: "wait_for_slot (Suc k) n srv a start w = wait_for_slot k n srv a start w1"
      by simp
    from Suc.IH[of w1] obtain ext where
      e: "sent (snd (wait_for_slot k n srv a start w1)) = sent w1 @ ext"
        "\<forall>q\<in>set (availability_queries ext). q_visit_motive_ids q = m"
        "stdin (snd (wait_for_slot k n srv a start w1)) = stdin w1" by blast
    have both: "\<forall>q\<in>set (availability_queries (?new @ ext)). q_visit_motive_ids q = m"
      unfolding availability_queries_append using here e(2) by auto
    have s: "sent (snd (wait_for_slot (Suc k) n srv a start w)) = sent w @ (?new @ ext)"
      by (simp only: eq e(1) s1 append_assoc)
    have i: "stdin (snd (wait_for_slot (Suc k) n srv a start w)) = stdin w"
      by (simp only: eq e(3) i1)
    from both s i show ?thesis by blast
  next
    case False
    then have "snd (wait_for_slot (Suc k) n srv a start w) = w1"
      using H by (cases r) (auto split: prod.splits)
    with s1 i1 here show ?thesis by auto
  qed
qed

lemma ex_wait:
  "wait_for_slot 3 3 ex_busy_server (ex_args\<lparr>motive_id := Some 5\<rparr>) ''2024-01-01'' ex_world =
     (Returns (),
      ex_world\<lparr>sent := [Get_doctor_booking ''dr-who'', Get_availabilities (ex_query ''2024-01-01''),
                        Get_doctor_booking ''dr-who'', Get_availabilities (ex_query ''2024-01-01'')],
               stdout := [[], ''no availabilities'', [],
                          ''availabilities: '' @ repr_availabilities [\<lparr>slots = [''X'']\<rparr>]]\<rparr>)"
  by (simp add: wait_for_slot.simps has_availability_def go_def and_then_def
      ex_busy_server_def ex_args_def ex_world_def ex_query_def
      ex_booking_def ex_second_def get_practice_def py_getitem_def select_motive_def
      choose_motive_def get_agenda_ids_def falsy_def str_int_def str_nat.simps digit_char_def
      numeral_3_eq_3 decide_def log_def print_def mk_query_def Let_def)

text \<open>
  Claim C7, amended. Every call of \<open>has_availability\<close>, that is every iteration of the
  poll loop, asks for the booking catalog once, whatever happens next. The motive is
  what stays: once \<open>args\<close> holds a motive id other than 0, every query of the loop is
  made for it and the operator is not asked again.
\<close>

theorem catalog_fetched_by_every_poll:
  "booking_requests (sent (snd (has_availability n srv a start w))) =
     booking_requests (sent w) @ [doctor_id a] \<and>
   (motive_id a = Some m \<and> m \<noteq> 0 \<longrightarrow>
      (\<forall>q\<in>set (availability_queries
                  (drop (length (sent w)) (sent (snd (wait_for_slot k n srv a start w))))).
         q_visit_motive_ids q = m) \<and>
      stdin (snd (wait_for_slot k n srv a start w)) = stdin w)"
proof (intro conjI impI)
  from has_availability_sent[of n srv a start w] obtain qs where
    "sent (snd (has_availability n srv a start w)) =
       sent w @ Get_doctor_booking (doctor_id a) # map Get_availabilities qs" by blast
  then show "booking_requests (sent (snd (has_availability n srv a start w))) =
     booking_requests (sent w) @ [doctor_id a]"
    by (simp add: booking_requests_append booking_requests_map)
next
  assume h: "motive_id a = Some m \<and> m \<noteq> 0"
  then have m: "motive_id a = Some m" "m \<noteq> 0" by simp_all
  from wait_for_slot_fixed_motive[OF m, of k n srv start w] obtain ext where
    e: "sent (snd (wait_for_slot k n srv a start w)) = sent w @ ext"
       "\<forall>q\<in>set (availability_queries ext). q_visit_motive_ids q = m"
       "stdin (snd (wait_for_slot k n srv a start w)) = stdin w" by blast
  from e show "\<forall>q\<in>set (availability_queries
                  (drop (length (sent w)) (sent (snd (wait_for_slot k n srv a start w))))).
         q_visit_motive_ids q = m" by simp
  from e show "stdin (snd (wait_for_slot k n srv a start w)) = stdin w" by simp
qed

theorem catalog_fetched_by_every_poll_witness:
  "booking_requests (sent (snd (has_availability 2 ex_server ex_args ''2024-01-01'' ex_world))) =
     [''dr-who''] \<and>
   map q_visit_motive_ids (availability_queries (sent (snd
      (wait_for_slot 3 3 ex_busy_server (ex_args\<lparr>motive_id := Some 5\<rparr>) ''2024-01-01'' ex_world))))
     = [5, 5] \<and>
   stdin (snd (wait_for_slot 3 3 ex_busy_server (ex_args\<lparr>motive_id := Some 5\<rparr>)
                 ''2024-01-01'' ex_world)) = []"
  using catalog_fetched_by_every_poll[of 2 ex_server ex_args "''2024-01-01''" ex_world]
        catalog_fetched_by_every_poll[of 3 ex_busy_server "ex_args\<lparr>motive_id := Some 5\<rparr>"
          "''2024-01-01''" ex_world 5 3]
  by (simp add: ex_wait ex_query_def mk_query_def) (simp add: ex_world_def ex_args_def)

text \<open>
  The claim as stated fails: in a run whose first poll finds no slot and whose second
  poll finds one, the catalog is asked for twice.
\<close>

theorem main_fetches_catalog_twice:
  "fst (main 3 ex_lib ex_busy_server ex_args ex_world) = Diverges \<and>
   booking_requests (sent (snd (main 3 ex_lib ex_busy_server ex_args ex_world))) =
     [''dr-who'', ''dr-who'']"
  by (simp add: main_def load_state_def try_finally_def try_body_def do_login_def two_factor_def
      redirect_def get_patients_def wait_for_slot.simps has_availability_def go_def and_then_def
      ex_busy_server_def ex_args_def ex_world_def ex_lib_def ex_patient_def
      ex_booking_def ex_second_def get_practice_def py_getitem_def select_motive_def
      choose_motive_def get_agenda_ids_def falsy_def str_int_def str_nat.simps digit_char_def
      numeral_3_eq_3 decide_def log_def print_def mk_query_def Let_def password_of_def)

section \<open>The session state\<close>





section \<open>main\<close>













end
